theory Spec2Isabelle
  imports Main "HOL-Library.Sublist"
begin

section \<open>Data model of \<^verbatim>\<open>commands.ts\<close>\<close>

text \<open>
  The texts the command center builds and shows (messages, titles, paths, error output)
  are modelled as \<^typ>\<open>string\<close>: lists of code units below 256.  Branch names, which
  the user types, are modelled as lists of UTF-16 code units of any value (section
  ``Branch command'').
\<close>

subsection \<open>Uri\<close>

text \<open>
  The five components of a vscode \<^verbatim>\<open>Uri\<close>.  \<^verbatim>\<open>uri.with({ scheme: s, query: q })\<close>
  keeps the other three components; it is the record update
  \<open>u\<lparr>scheme := s, query := q\<rparr>\<close>.
\<close>

record Uri =
  scheme :: string
  authority :: string
  path :: string
  query :: string
  fragment :: string

text \<open>
  \<^verbatim>\<open>Uri.fsPath\<close> and Node's \<^verbatim>\<open>path.basename\<close> are library functions; they are
  modelled for a POSIX host.  The file-system path of a \<^verbatim>\<open>file\<close> URI with an authority
  is the UNC path \<^verbatim>\<open>//authority/path\<close>; a path that starts with a slash, a drive letter
  and a colon loses the slash and has the drive letter in lower case; every other path
  is the path component.  The base name is what follows the last slash once trailing
  slashes are dropped.
\<close>

definition isAsciiLetter :: "char \<Rightarrow> bool" where
  "isAsciiLetter c =
     (let n = (of_char c :: nat) in (65 \<le> n \<and> n \<le> 90) \<or> (97 \<le> n \<and> n \<le> 122))"

definition lowerCase :: "char \<Rightarrow> char" where
  "lowerCase c =
     (let n = (of_char c :: nat) in if 65 \<le> n \<and> n \<le> 90 then char_of (n + 32) else c)"

definition fsPath :: "Uri \<Rightarrow> string" where
  "fsPath u =
     (if authority u \<noteq> [] \<and> 1 < length (path u) \<and> scheme u = ''file''
      then ''//'' @ authority u @ path u
      else
        (case path u of
           slash # letter # colon # rest \<Rightarrow>
             if slash = CHR ''/'' \<and> isAsciiLetter letter \<and> colon = CHR '':''
             then lowerCase letter # colon # rest
             else path u
         | _ \<Rightarrow> path u))"

definition basename :: "string \<Rightarrow> string" where
  "basename p =
     rev (takeWhile (\<lambda>c. c \<noteq> CHR ''/'') (dropWhile (\<lambda>c. c = CHR ''/'') (rev p)))"

subsection \<open>Status and Resource\<close>

text \<open>
  Modelled from the spec: the \<^verbatim>\<open>Status\<close> enumeration is declared in \<^verbatim>\<open>model.ts\<close>,
  which is not among the sources.  The spec gives the closed set
  ADDED, DELETED, MODIFIED, UNTRACKED, IGNORED, CLEAN.
\<close>

datatype Status = ADDED | DELETED | MODIFIED | UNTRACKED | IGNORED | CLEAN

text \<open>
  A \<^verbatim>\<open>Resource\<close>, as far as \<^verbatim>\<open>commands.ts\<close> reads it: \<^verbatim>\<open>resource.status\<close>,
  \<^verbatim>\<open>resource.original\<close> and \<^verbatim>\<open>resource.resourceUri\<close>.
\<close>

record Resource =
  status :: Status
  original :: Uri
  resourceUri :: Uri

subsection \<open>Thrown values\<close>

text \<open>
  The value of a property of a thrown value, as \<^verbatim>\<open>||\<close> and \<^verbatim>\<open>.replace\<close> see it:
  \<open>Falsy\<close> is \<^verbatim>\<open>undefined\<close>, \<^verbatim>\<open>null\<close> or another falsy value that is not a string;
  \<open>Str s\<close> is the string \<open>s\<close>, falsy when empty; \<open>NotString\<close> is a truthy value that
  is not a string (a number, a \<^verbatim>\<open>Buffer\<close>, an object), which has no \<^verbatim>\<open>replace\<close>
  method.
\<close>

datatype Property = Falsy | Str string | NotString

text \<open>
  A value that a handler throws or rejects with.  \<^verbatim>\<open>null\<close> and \<^verbatim>\<open>undefined\<close> have
  no properties (reading one throws a \<^verbatim>\<open>TypeError\<close>); every other value is seen by the
  dispatcher through \<^verbatim>\<open>err.hgErrorCode\<close> (compared with \<^verbatim>\<open>===\<close> to a string, so that
  a value that is not a string acts as an absent one), \<^verbatim>\<open>err.stderr\<close>,
  \<^verbatim>\<open>err.message\<close> and \<^verbatim>\<open>String(err)\<close>, which is \<open>None\<close> when the conversion throws
  (an object without \<^verbatim>\<open>toString\<close>, such as \<^verbatim>\<open>Object.create(null)\<close>).
\<close>

record ErrorObject =
  hgErrorCode :: "string option"
  stderr :: Property
  message :: Property
  toString :: "string option"

datatype Thrown = Nullish | Obj ErrorObject

text \<open>A \<^verbatim>\<open>TypeError\<close> with the given message; the wording is the engine's.\<close>

definition typeError :: "string \<Rightarrow> Thrown" where
  "typeError text =
     Obj \<lparr>hgErrorCode = None, stderr = Falsy, message = Str text,
          toString = Some (''TypeError: '' @ text)\<rparr>"

subsection \<open>Observable effects\<close>

text \<open>
  The calls that leave the command center, recorded in the order they are made:
  \<^verbatim>\<open>window.showInformationMessage(text)\<close>, \<^verbatim>\<open>window.showErrorMessage(text, choice)\<close>,
  \<^verbatim>\<open>telemetryReporter.sendTelemetryEvent(name, { command })\<close>, \<^verbatim>\<open>console.error\<close>,
  \<^verbatim>\<open>commands.executeCommand\<close> for \<^verbatim>\<open>vscode.open\<close> and \<^verbatim>\<open>vscode.diff\<close>,
  \<^verbatim>\<open>window.showInputBox\<close>, \<^verbatim>\<open>model.commit(message, opts)\<close>,
  \<^verbatim>\<open>model.getCommitTemplate()\<close>, \<^verbatim>\<open>model.branch(name)\<close> and
  \<^verbatim>\<open>outputChannel.show()\<close>.  Showing a dialog or an input box, sending telemetry and
  writing to the console are taken to succeed; how \<^verbatim>\<open>outputChannel.show()\<close>, the
  calls on the engine and \<^verbatim>\<open>executeCommand\<close> end is an argument of the function that
  makes them.
\<close>

datatype CommandCall =
    VscodeOpen Uri
  | VscodeDiff Uri Uri string

datatype Logged = LogText string | LogError ErrorObject

record CommitOptions =
  all :: bool

datatype Event =
    ShowInformationMessage string
  | ShowErrorMessage string string
  | SendTelemetryEvent string string
  | ConsoleError Logged
  | ExecuteCommand CommandCall
  | ShowInputBox
  | ModelCommit string CommitOptions
  | ModelGetCommitTemplate
  | ModelBranch "nat list"
  | OutputChannelShow

text \<open>
  The model bound to the command center, as far as the commit commands are concerned:
  \<^verbatim>\<open>model.workingDirectoryGroup.resources\<close>, which they read, and the resources of
  the staging group, which they never read and which is part of the state so that
  properties about staged changes can be stated.
\<close>

record Model =
  workingDirectoryGroup :: "Resource list"
  stagingGroup :: "Resource list"

text \<open>
  The state the command center works on: \<^verbatim>\<open>this.model\<close> (possibly unbound),
  \<^verbatim>\<open>scm.inputBox.value\<close>, and the calls made so far on the host UI, the telemetry
  reporter, the console and the engine, oldest first.
\<close>

record World =
  model :: "Model option"
  inputBox :: string
  events :: "Event list"

definition emit :: "Event \<Rightarrow> World \<Rightarrow> World" where
  "emit e w = w\<lparr>events := events w @ [e]\<rparr>"

text \<open>
  An awaited call either yields a value or rejects: \<open>Inr v\<close> or \<open>Inl err\<close>.
\<close>

type_synonym 'a Awaited = "Thrown + 'a"

section \<open>DiffResolver\<close>

definition getLeftResource :: "Resource \<Rightarrow> Uri option" where
  "getLeftResource resource =
     (case status resource of
        ADDED \<Rightarrow> None
      | UNTRACKED \<Rightarrow> None
      | IGNORED \<Rightarrow> None
      | _ \<Rightarrow> Some ((original resource)\<lparr>scheme := ''hg'', query := ''.''\<rparr>))"

definition getRightResource :: "Resource \<Rightarrow> Uri option" where
  "getRightResource resource =
     (case status resource of
        DELETED \<Rightarrow> Some ((resourceUri resource)\<lparr>scheme := ''hg'', query := ''.''\<rparr>)
      | MODIFIED \<Rightarrow> Some (resourceUri resource)
      | UNTRACKED \<Rightarrow> Some (resourceUri resource)
      | IGNORED \<Rightarrow> Some (resourceUri resource)
      | ADDED \<Rightarrow> Some (resourceUri resource)
      | _ \<Rightarrow> None)"

definition getTitle :: "Resource \<Rightarrow> string" where
  "getTitle resource =
     (let basename = basename (fsPath (resourceUri resource)) in
      case status resource of
        MODIFIED \<Rightarrow> basename @ '' (Working Folder)''
      | _ \<Rightarrow> '''')"

text \<open>
  \<^verbatim>\<open>_openResource\<close>, here \<open>openResource'\<close>.  \<open>executed\<close> is how the host's \<^verbatim>\<open>commands.executeCommand\<close>
  call ends: \<open>None\<close> when it resolves, \<open>Some err\<close> when it rejects.
\<close>

definition executeCommand :: "CommandCall \<Rightarrow> Thrown option \<Rightarrow> World \<Rightarrow> unit Awaited \<times> World" where
  "executeCommand c executed w =
     (case executed of
        None \<Rightarrow> (Inr (), emit (ExecuteCommand c) w)
      | Some err \<Rightarrow> (Inl err, emit (ExecuteCommand c) w))"

definition openResource' :: "Resource \<Rightarrow> Thrown option \<Rightarrow> World \<Rightarrow> unit Awaited \<times> World" where
  "openResource' resource executed w =
     (let left = getLeftResource resource;
          right = getRightResource resource;
          title = getTitle resource
      in case right of
           None \<Rightarrow> (Inr (), emit (ConsoleError (LogText ''oh no'')) w)
         | Some r \<Rightarrow>
             (case left of
                None \<Rightarrow> executeCommand (VscodeOpen r) executed w
              | Some l \<Rightarrow> executeCommand (VscodeDiff l r title) executed w))"

section \<open>Dispatcher\<close>

subsection \<open>Regular expressions of the error classification\<close>

text \<open>
  Line terminators of the regular-expression engine that are code units below 256:
  line feed and carriage return.  With the \<^verbatim>\<open>m\<close> flag, \<^verbatim>\<open>^\<close> holds at the start of
  the input and after a line terminator, \<^verbatim>\<open>$\<close> at its end and before a line
  terminator, and \<^verbatim>\<open>.\<close> matches anything but a line terminator.
\<close>

definition isLineTerminator :: "char \<Rightarrow> bool" where
  "isLineTerminator c = (c = CHR 0x0A \<or> c = CHR 0x0D)"

text \<open>
  With the \<^verbatim>\<open>i\<close> flag two code units match when their upper-case forms agree.  The
  patterns below are ASCII, and no code unit outside ASCII has an ASCII upper-case
  form, so folding the ASCII letters is enough.
\<close>

definition upperCase :: "char \<Rightarrow> char" where
  "upperCase c =
     (let n = (of_char c :: nat) in if 97 \<le> n \<and> n \<le> 122 then char_of (n - 32) else c)"

fun startsWithIgnoreCase :: "string \<Rightarrow> string \<Rightarrow> bool" where
  "startsWithIgnoreCase [] s = True"
| "startsWithIgnoreCase (p # ps) [] = False"
| "startsWithIgnoreCase (p # ps) (c # cs) =
     (upperCase p = upperCase c \<and> startsWithIgnoreCase ps cs)"

text \<open>
  \<^verbatim>\<open>.replace(/^error: /mi, '')\<close>: the first \<^verbatim>\<open>error: \<close> that starts a line is
  removed.  The flag tells whether the position is at the start of a line.
\<close>

fun replaceErrorPrefix :: "bool \<Rightarrow> string \<Rightarrow> string" where
  "replaceErrorPrefix lineStart [] = []"
| "replaceErrorPrefix lineStart (c # cs) =
     (if lineStart \<and> startsWithIgnoreCase ''error: '' (c # cs)
      then drop (length ''error: '') (c # cs)
      else c # replaceErrorPrefix (isLineTerminator c) cs)"

text \<open>
  \<^verbatim>\<open>.replace(/^> husky.*$/mi, '')\<close>: the first line that starts with \<^verbatim>\<open>> husky\<close>
  is emptied, up to its line terminator.
\<close>

fun replaceHusky :: "bool \<Rightarrow> string \<Rightarrow> string" where
  "replaceHusky lineStart [] = []"
| "replaceHusky lineStart (c # cs) =
     (if lineStart \<and> startsWithIgnoreCase ''> husky'' (c # cs)
      then dropWhile (\<lambda>c. \<not> isLineTerminator c) (drop (length ''> husky'') (c # cs))
      else c # replaceHusky (isLineTerminator c) cs)"

text \<open>\<^verbatim>\<open>.split(/[\r\n]/)\<close>: the pieces between carriage returns and line feeds.\<close>

fun splitLines :: "string \<Rightarrow> string list" where
  "splitLines [] = [[]]"
| "splitLines (c # cs) =
     (if c = CHR 0x0D \<or> c = CHR 0x0A then [] # splitLines cs
      else (case splitLines cs of
              [] \<Rightarrow> [[c]]
            | l # ls \<Rightarrow> (c # l) # ls))"

subsection \<open>Localized messages\<close>

text \<open>
  \<^verbatim>\<open>localize\<close> comes from the library \<^verbatim>\<open>vscode-nls\<close>.  It is modelled without a
  translation bundle: the default message, with each \<^verbatim>\<open>{n}\<close> (one digit) replaced by
  argument \<open>n\<close> when there is one.
\<close>

definition digitValue :: "char \<Rightarrow> nat option" where
  "digitValue c =
     (let n = (of_char c :: nat) in if 48 \<le> n \<and> n \<le> 57 then Some (n - 48) else None)"

fun format :: "string \<Rightarrow> string list \<Rightarrow> string" where
  "format (a # d # b # rest) args =
     (if a = CHR ''{'' \<and> b = CHR ''}'' \<and> (case digitValue d of None \<Rightarrow> False | Some i \<Rightarrow> i < length args)
      then (args ! the (digitValue d)) @ format rest args
      else a # format (d # b # rest) args)"
| "format (a # rest) args = a # format rest args"
| "format [] args = []"

definition localize :: "string \<Rightarrow> string \<Rightarrow> string list \<Rightarrow> string" where
  "localize key msg args = format msg args"

subsection \<open>The command wrapper\<close>

text \<open>
  How a call of the handler (\<^verbatim>\<open>method.apply(this, args)\<close>) ends: it returns and the
  promise made of its result is fulfilled, it returns a promise that rejects, or it
  throws before returning.
\<close>

datatype Completion = Fulfils | Rejects Thrown | Throws Thrown

text \<open>
  What the caller of the wrapper gets: \<^verbatim>\<open>undefined\<close>, a promise (fulfilled, or
  rejected with what the catch handler itself raised), or an exception thrown by the
  wrapper itself.
\<close>

datatype Dispatched =
    ReturnedUndefined
  | PromiseFulfilled
  | PromiseRejected Thrown
  | ThrewSynchronously Thrown

text \<open>
  \<^verbatim>\<open>err.stderr || err.message || String(err)\<close>, the receiver of the first
  \<^verbatim>\<open>.replace\<close>: the first truthy value of the three.  Where that value is not a
  string, \<^verbatim>\<open>.replace\<close> is not a function and a \<^verbatim>\<open>TypeError\<close> is thrown; where
  \<^verbatim>\<open>String(err)\<close> is reached and throws, its \<^verbatim>\<open>TypeError\<close> is thrown.
\<close>

definition diagnosticText :: "ErrorObject \<Rightarrow> string Awaited" where
  "diagnosticText err =
     (case stderr err of
        NotString \<Rightarrow> Inl (typeError ''replace is not a function'')
      | Str (c # cs) \<Rightarrow> Inr (c # cs)
      | _ \<Rightarrow>
        (case message err of
           NotString \<Rightarrow> Inl (typeError ''replace is not a function'')
         | Str (c # cs) \<Rightarrow> Inr (c # cs)
         | _ \<Rightarrow>
           (case toString err of
              None \<Rightarrow> Inl (typeError ''Cannot convert object to primitive value'')
            | Some s \<Rightarrow> Inr s)))"

text \<open>
  The two removals, the split into lines and the first non-empty line:
  \<^verbatim>\<open>undefined\<close> when there is none.
\<close>

definition hint :: "string \<Rightarrow> string option" where
  "hint text =
     (case filter (\<lambda>line. line \<noteq> [])
             (splitLines (replaceHusky True (replaceErrorPrefix True text))) of
        [] \<Rightarrow> None
      | line # _ \<Rightarrow> Some line)"

text \<open>The \<^verbatim>\<open>switch\<close> on \<^verbatim>\<open>err.hgErrorCode\<close>: the message, or what the switch throws.\<close>

definition errorMessage :: "ErrorObject \<Rightarrow> string Awaited" where
  "errorMessage err =
     (if hgErrorCode err = Some ''DirtyWorkTree''
      then Inr (localize ''clean repo''
                  ''Please clean your repository working tree before checkout.'' [])
      else
        (case diagnosticText err of
           Inl thrown \<Rightarrow> Inl thrown
         | Inr text \<Rightarrow>
             (case hint text of
                Some (c # cs) \<Rightarrow> Inr (localize ''hg error details'' ''Hg: {0}'' [c # cs])
              | _ \<Rightarrow> Inr (localize ''hg error'' ''Hg error'' []))))"

text \<open>
  The handler passed to \<^verbatim>\<open>result.catch\<close>, an asynchronous function: what it throws
  rejects the promise of the wrapper.  \<open>choice\<close> is the answer to the error dialog:
  the button picked, or \<open>None\<close> when the dialog is dismissed.  \<open>shown\<close> is how
  \<^verbatim>\<open>outputChannel.show()\<close> ends: \<open>None\<close> when it returns, \<open>Some err\<close> when it throws.
\<close>

definition catchHandler ::
  "Thrown \<Rightarrow> string option \<Rightarrow> Thrown option \<Rightarrow> World \<Rightarrow> Dispatched \<times> World"
where
  "catchHandler thrown choice shown w =
     (case thrown of
        Nullish \<Rightarrow> (PromiseRejected (typeError ''Cannot read property hgErrorCode''), w)
      | Obj err \<Rightarrow>
          (case errorMessage err of
             Inl raised \<Rightarrow> (PromiseRejected raised, w)
           | Inr msg \<Rightarrow>
               if msg = [] then (PromiseFulfilled, emit (ConsoleError (LogError err)) w)
               else
                 (let openOutputChannelChoice = localize ''open hg log'' ''Open Hg Log'' [];
                      w1 = emit (ShowErrorMessage msg openOutputChannelChoice) w
                  in if choice = Some openOutputChannelChoice
                     then (case shown of
                             None \<Rightarrow> (PromiseFulfilled, emit OutputChannelShow w1)
                           | Some raised \<Rightarrow> (PromiseRejected raised, emit OutputChannelShow w1))
                     else (PromiseFulfilled, w1))))"

text \<open>
  The wrapper that \<^verbatim>\<open>createCommand\<close> returns.  The handler is called outside any
  \<^verbatim>\<open>try\<close>: what it throws before returning leaves the wrapper as an exception.
\<close>

definition createCommand ::
  "string \<Rightarrow> bool \<Rightarrow> (World \<Rightarrow> Completion \<times> World) \<Rightarrow> string option \<Rightarrow> Thrown option
     \<Rightarrow> World \<Rightarrow> Dispatched \<times> World"
where
  "createCommand commandId skipModelCheck method choice shown w =
     (if \<not> skipModelCheck \<and> model w = None
      then (ReturnedUndefined,
            emit (ShowInformationMessage
                    (localize ''disabled'' ''Hg is either disabled or not supported in this workspace'' [])) w)
      else
        (let w1 = emit (SendTelemetryEvent ''hg.command'' commandId) w in
         case method w1 of
           (Throws err, w2) \<Rightarrow> (ThrewSynchronously err, w2)
         | (Fulfils, w2) \<Rightarrow> (PromiseFulfilled, w2)
         | (Rejects err, w2) \<Rightarrow> catchHandler err choice shown w2))"

section \<open>Commit commands\<close>

text \<open>
  \<^verbatim>\<open>window.showInputBox\<close>: \<open>answer\<close> is what the user enters, \<open>None\<close> when the box
  is cancelled.
\<close>

definition showInputBox :: "'a option \<Rightarrow> World \<Rightarrow> 'a option Awaited \<times> World" where
  "showInputBox answer w = (Inr answer, emit ShowInputBox w)"

text \<open>
  \<^verbatim>\<open>smartCommit\<close>.  \<open>committed\<close> is how \<^verbatim>\<open>model.commit\<close> ends: \<open>None\<close> when it
  resolves, \<open>Some err\<close> when it rejects.  A message is falsy when it is
  \<^verbatim>\<open>undefined\<close> or empty.
\<close>

definition smartCommit ::
  "(World \<Rightarrow> string option Awaited \<times> World) \<Rightarrow> CommitOptions option \<Rightarrow> Thrown option \<Rightarrow> World
     \<Rightarrow> bool Awaited \<times> World"
where
  "smartCommit getCommitMessage opts committed w =
     (case model w of
        None \<Rightarrow> (Inl (typeError ''Cannot read property workingDirectoryGroup''), w)
      | Some m \<Rightarrow>
          (let opts = (case opts of
                         None \<Rightarrow> \<lparr>all = (length (workingDirectoryGroup m) = 0)\<rparr>
                       | Some given \<Rightarrow> given)
           in if (length (workingDirectoryGroup m) = 0 \<and> length (workingDirectoryGroup m) = 0)
                 \<or> (\<not> all opts \<and> length (workingDirectoryGroup m) = 0)
              then (Inr False,
                    emit (ShowInformationMessage
                            (localize ''no changes'' ''There are no changes to commit.'' [])) w)
              else
                (case getCommitMessage w of
                   (Inl err, w1) \<Rightarrow> (Inl err, w1)
                 | (Inr None, w1) \<Rightarrow> (Inr False, w1)
                 | (Inr (Some []), w1) \<Rightarrow> (Inr False, w1)
                 | (Inr (Some msg), w1) \<Rightarrow>
                     (case committed of
                        Some err \<Rightarrow> (Inl err, emit (ModelCommit msg opts) w1)
                      | None \<Rightarrow> (Inr True, emit (ModelCommit msg opts) w1)))))"

text \<open>
  \<^verbatim>\<open>commitWithAnyInput\<close>.  \<open>answer\<close> is the user's answer to the input box,
  \<open>template\<close> what \<^verbatim>\<open>model.getCommitTemplate\<close> yields.
\<close>

definition commitWithAnyInput ::
  "CommitOptions option \<Rightarrow> string option \<Rightarrow> Thrown option \<Rightarrow> string Awaited \<Rightarrow> World
     \<Rightarrow> unit Awaited \<times> World"
where
  "commitWithAnyInput opts answer committed template w =
     (let msg = inputBox w;
          getCommitMessage =
            (\<lambda>w. if msg \<noteq> [] then (Inr (Some msg), w) else showInputBox answer w)
      in case smartCommit getCommitMessage opts committed w of
           (Inl err, w1) \<Rightarrow> (Inl err, w1)
         | (Inr didCommit, w1) \<Rightarrow>
             if msg \<noteq> [] \<and> didCommit
             then (case template of
                     Inl err \<Rightarrow> (Inl err, emit ModelGetCommitTemplate w1)
                   | Inr t \<Rightarrow> (Inr (), (emit ModelGetCommitTemplate w1)\<lparr>inputBox := t\<rparr>))
             else (Inr (), w1))"

section \<open>Branch command\<close>

text \<open>
  A branch name is any text the user types: it is modelled as the list of its UTF-16
  code units, each a natural number.  \<open>units\<close> gives the code units of a text of this
  file.
\<close>

definition units :: "string \<Rightarrow> nat list" where
  "units s = map of_char s"

text \<open>
  The pattern of \<^verbatim>\<open>branch\<close> is an alternation; each alternative is a literal
  anywhere, a literal at the start of the input (\<^verbatim>\<open>^\<close>) or at its end (\<^verbatim>\<open>$\<close>),
  one white-space code unit (\<^verbatim>\<open>\s\<close>), or an input of white space only
  (\<^verbatim>\<open>^\s*$\<close>).
\<close>

datatype Alternative =
    Lit "nat list"
  | AtStart "nat list"
  | AtEnd "nat list"
  | WhiteSpace
  | BlankInput

text \<open>
  The code units that \<^verbatim>\<open>\s\<close> matches: tab, line feed, vertical tab, form feed,
  carriage return, space, no-break space, the space separators from U+1680 to U+3000,
  the line and paragraph separators, and the byte order mark.
\<close>

definition isWhiteSpaceUnit :: "nat \<Rightarrow> bool" where
  "isWhiteSpaceUnit u =
     (u = 0x09 \<or> u = 0x0A \<or> u = 0x0B \<or> u = 0x0C \<or> u = 0x0D \<or> u = 0x20 \<or> u = 0xA0
      \<or> u = 0x1680 \<or> (0x2000 \<le> u \<and> u \<le> 0x200A) \<or> u = 0x2028 \<or> u = 0x2029
      \<or> u = 0x202F \<or> u = 0x205F \<or> u = 0x3000 \<or> u = 0xFEFF)"

text \<open>
  The length of the match of one alternative at a position: \<open>start\<close> tells whether
  the position is the start of the input, \<open>rest\<close> is the input from the position on.
\<close>

fun matchAlternative :: "bool \<Rightarrow> nat list \<Rightarrow> Alternative \<Rightarrow> nat option" where
  "matchAlternative start rest (Lit p) = (if prefix p rest then Some (length p) else None)"
| "matchAlternative start rest (AtStart p) =
     (if start \<and> prefix p rest then Some (length p) else None)"
| "matchAlternative start rest (AtEnd p) = (if rest = p then Some (length p) else None)"
| "matchAlternative start rest WhiteSpace =
     (case rest of [] \<Rightarrow> None | c # cs \<Rightarrow> if isWhiteSpaceUnit c then Some 1 else None)"
| "matchAlternative start rest BlankInput =
     (if start \<and> list_all isWhiteSpaceUnit rest then Some (length rest) else None)"

text \<open>Alternatives are tried from left to right; the first that matches wins.\<close>

fun firstMatch :: "Alternative list \<Rightarrow> bool \<Rightarrow> nat list \<Rightarrow> nat option" where
  "firstMatch [] start rest = None"
| "firstMatch (a # as) start rest =
     (case matchAlternative start rest a of
        Some n \<Rightarrow> Some n
      | None \<Rightarrow> firstMatch as start rest)"

text \<open>
  \<^verbatim>\<open>s.replace(/.../g, by)\<close>: matches are looked for from left to right, each match
  is replaced, the search goes on behind it, and after an empty match one code unit
  is copied.
\<close>

fun replaceAll :: "Alternative list \<Rightarrow> nat list \<Rightarrow> bool \<Rightarrow> nat list \<Rightarrow> nat list" where
  "replaceAll alts by start [] =
     (case firstMatch alts start [] of None \<Rightarrow> [] | Some n \<Rightarrow> by)"
| "replaceAll alts by start (c # cs) =
     (case firstMatch alts start (c # cs) of
        None \<Rightarrow> c # replaceAll alts by False cs
      | Some 0 \<Rightarrow> by @ c # replaceAll alts by False cs
      | Some (Suc n) \<Rightarrow> by @ replaceAll alts by False (drop n cs))"

text \<open>
  \<^verbatim>\<open>/^\.|\/\.|\.\.|~|\^|:|\/$|\.lock$|\.lock\/|\\|\*|\s|^\s*$|\.$/g\<close>
\<close>

definition branchPattern :: "Alternative list" where
  "branchPattern =
     [AtStart (units ''.''), Lit (units ''/.''), Lit (units ''..''), Lit (units ''~''),
      Lit (units ''^''), Lit (units '':''), AtEnd (units ''/''), AtEnd (units ''.lock''),
      Lit (units ''.lock/''), Lit [0x5C], Lit (units ''*''), WhiteSpace, BlankInput,
      AtEnd (units ''.'')]"

text \<open>
  \<^verbatim>\<open>branch\<close>.  \<open>answer\<close> is the user's answer to the input box, \<open>branched\<close> how
  \<^verbatim>\<open>model.branch\<close> ends.
\<close>

definition branch :: "nat list option \<Rightarrow> Thrown option \<Rightarrow> World \<Rightarrow> unit Awaited \<times> World" where
  "branch answer branched w =
     (case showInputBox answer w of
        (Inl err, w1) \<Rightarrow> (Inl err, w1)
      | (Inr None, w1) \<Rightarrow> (Inr (), w1)
      | (Inr (Some []), w1) \<Rightarrow> (Inr (), w1)
      | (Inr (Some result), w1) \<Rightarrow>
          (let name = replaceAll branchPattern (units ''-'') True result in
           case model w1 of
             None \<Rightarrow> (Inl (typeError ''Cannot read property branch''), w1)
           | Some m \<Rightarrow>
               (case branched of
                  Some err \<Rightarrow> (Inl err, emit (ModelBranch name) w1)
                | None \<Rightarrow> (Inr (), emit (ModelBranch name) w1))))"

section \<open>Vocabulary of the properties\<close>

text \<open>
  The historical reference of a URI: the same resource seen through the read-only
  \<^verbatim>\<open>hg\<close> scheme at the revision token \<^verbatim>\<open>.\<close>.
\<close>

definition historical :: "Uri \<Rightarrow> Uri" where
  "historical u = u\<lparr>scheme := ''hg'', query := ''.''\<rparr>"

text \<open>The events a run has added to the ones that were there before it.\<close>

definition added :: "World \<Rightarrow> World \<Rightarrow> Event list" where
  "added before after = drop (length (events before)) (events after)"



fun isTelemetry :: "Event \<Rightarrow> bool" where
  "isTelemetry (SendTelemetryEvent n c) = True"
| "isTelemetry e = False"

fun isCommit :: "Event \<Rightarrow> bool" where
  "isCommit (ModelCommit m opts) = True"
| "isCommit e = False"

subsection \<open>Sample inputs\<close>

definition fileUri :: "string \<Rightarrow> Uri" where
  "fileUri p = \<lparr>scheme = ''file'', authority = [], path = p, query = [], fragment = []\<rparr>"

definition resourceAt :: "Status \<Rightarrow> string \<Rightarrow> Resource" where
  "resourceAt s p = \<lparr>status = s, original = fileUri p, resourceUri = fileUri p\<rparr>"

text \<open>A resource whose original and current URIs differ.\<close>

definition movedResource :: "Status \<Rightarrow> string \<Rightarrow> string \<Rightarrow> Resource" where
  "movedResource s old new = \<lparr>status = s, original = fileUri old, resourceUri = fileUri new\<rparr>"

definition boundWorld :: "Resource list \<Rightarrow> Resource list \<Rightarrow> string \<Rightarrow> World" where
  "boundWorld working staged input =
     \<lparr>model = Some \<lparr>workingDirectoryGroup = working, stagingGroup = staged\<rparr>,
      inputBox = input, events = []\<rparr>"

definition unboundWorld :: World where
  "unboundWorld = \<lparr>model = None, inputBox = [], events = []\<rparr>"

text \<open>
  Errors a handler may fail with: one whose only text is a line feed on \<^verbatim>\<open>stderr\<close>,
  one whose only text is a space and a line feed, \<^verbatim>\<open>new Error('')\<close>, and an ordinary
  \<^verbatim>\<open>Error\<close>.
\<close>

definition newlineError :: ErrorObject where
  "newlineError =
     \<lparr>hgErrorCode = None, stderr = Str [CHR 0x0A], message = Falsy,
      toString = Some ''[object Object]''\<rparr>"


definition emptyError :: ErrorObject where
  "emptyError =
     \<lparr>hgErrorCode = None, stderr = Falsy, message = Str [], toString = Some ''Error''\<rparr>"

definition plainError :: ErrorObject where
  "plainError =
     \<lparr>hgErrorCode = None, stderr = Falsy, message = Str ''abort: no repository found'',
      toString = Some ''Error: abort: no repository found''\<rparr>"

text \<open>What a closed output channel throws when it is asked to show itself.\<close>

definition channelError :: ErrorObject where
  "channelError =
     \<lparr>hgErrorCode = None, stderr = Falsy, message = Str ''Channel has been closed'',
      toString = Some ''Error: Channel has been closed''\<rparr>"

text \<open>An engine error whose \<^verbatim>\<open>stderr\<close> is a \<^verbatim>\<open>Buffer\<close>.\<close>

definition bufferError :: ErrorObject where
  "bufferError =
     \<lparr>hgErrorCode = None, stderr = NotString, message = Str ''Command failed'',
      toString = Some ''Error: Command failed''\<rparr>"

text \<open>
  Handlers: one that rejects with an error, one that rejects with \<^verbatim>\<open>null\<close>, one that
  throws, one that leaves a trace and succeeds.
\<close>

definition rejecting :: "ErrorObject \<Rightarrow> World \<Rightarrow> Completion \<times> World" where
  "rejecting err w = (Rejects (Obj err), w)"

definition rejectingNull :: "World \<Rightarrow> Completion \<times> World" where
  "rejectingNull w = (Rejects Nullish, w)"

definition throwing :: "ErrorObject \<Rightarrow> World \<Rightarrow> Completion \<times> World" where
  "throwing err w = (Throws (Obj err), w)"

definition showingOutput :: "World \<Rightarrow> Completion \<times> World" where
  "showingOutput w = (Fulfils, emit OutputChannelShow w)"

text \<open>A \<^verbatim>\<open>getCommitMessage\<close> that yields a fixed message without asking.\<close>

definition answering :: "string \<Rightarrow> World \<Rightarrow> string option Awaited \<times> World" where
  "answering msg w = (Inr (Some msg), w)"

text \<open>White space in a text of code units below 256: what \<^verbatim>\<open>\s\<close> matches there.\<close>

definition isWhiteSpace :: "char \<Rightarrow> bool" where
  "isWhiteSpace c =
     (c = CHR 0x09 \<or> c = CHR 0x0A \<or> c = CHR 0x0B \<or> c = CHR 0x0C \<or> c = CHR 0x0D
      \<or> c = CHR 0x20 \<or> c = CHR 0xA0)"


text \<open>
  The forbidden patterns of a branch name, in the words of the property on
  \<^verbatim>\<open>branch\<close>: a leading dot, \<^verbatim>\<open>/.\<close>, \<^verbatim>\<open>..\<close>, \<^verbatim>\<open>~\<close>, \<^verbatim>\<open>^\<close>, \<^verbatim>\<open>:\<close>, a
  trailing slash, a \<^verbatim>\<open>.lock\<close> suffix, a \<^verbatim>\<open>.lock/\<close> segment, a backslash, \<^verbatim>\<open>*\<close>,
  white space, a trailing dot.  \<open>occurrences start s\<close> lists the lengths of the
  forbidden patterns that occur at the head of \<open>s\<close>, where \<open>start\<close> tells whether
  \<open>s\<close> is the whole name and \<open>s\<close> otherwise is what is left of it.
\<close>

definition occurrences :: "bool \<Rightarrow> nat list \<Rightarrow> nat list" where
  "occurrences start s =
     (if start \<and> prefix (units ''.'') s then [1] else [])
     @ (if prefix (units ''/.'') s then [2] else [])
     @ (if prefix (units ''..'') s then [2] else [])
     @ (if prefix (units ''~'') s then [1] else [])
     @ (if prefix (units ''^'') s then [1] else [])
     @ (if prefix (units '':'') s then [1] else [])
     @ (if s = units ''/'' then [1] else [])
     @ (if s = units ''.lock'' then [5] else [])
     @ (if prefix (units ''.lock/'') s then [6] else [])
     @ (if prefix [0x5C] s then [1] else [])
     @ (if prefix (units ''*'') s then [1] else [])
     @ (if s \<noteq> [] \<and> isWhiteSpaceUnit (hd s) then [1] else [])
     @ (if s = units ''.'' then [1] else [])"

text \<open>
  \<open>replaced start s out\<close>: reading \<open>s\<close> from left to right, \<open>out\<close> has a hyphen for
  an occurrence of a forbidden pattern wherever one occurs at the position reached, the
  reading going on behind that occurrence, and the code unit of \<open>s\<close> itself at every
  other position.
\<close>

fun replaced :: "bool \<Rightarrow> nat list \<Rightarrow> nat list \<Rightarrow> bool" where
  "replaced start [] out = (out = [])"
| "replaced start (c # cs) [] = False"
| "replaced start (c # cs) (d # out) =
     ((occurrences start (c # cs) = [] \<and> d = c \<and> replaced False cs out)
      \<or> list_ex (\<lambda>n. d = 0x2D \<and> replaced False (drop n (c # cs)) out)
            (occurrences start (c # cs)))"

text \<open>A name in which no forbidden pattern occurs.\<close>

definition forbiddenFree :: "nat list \<Rightarrow> bool" where
  "forbiddenFree name =
     (\<not> prefix (units ''.'') name \<and> \<not> sublist (units ''/.'') name
      \<and> \<not> sublist (units ''..'') name
      \<and> 0x7E \<notin> set name \<and> 0x5E \<notin> set name \<and> 0x3A \<notin> set name
      \<and> \<not> suffix (units ''/'') name \<and> \<not> suffix (units ''.lock'') name
      \<and> \<not> sublist (units ''.lock/'') name
      \<and> 0x5C \<notin> set name \<and> 0x2A \<notin> set name
      \<and> \<not> list_ex isWhiteSpaceUnit name
      \<and> \<not> suffix (units ''.'') name)"

section \<open>Properties of the DiffResolver\<close>

text \<open>The file-system path of a drive-letter path and of a UNC path.\<close>

lemma fsPath_examples:
  "fsPath (fileUri ''/C:/work/a.txt'') = ''c:/work/a.txt''"
  "basename (fsPath (fileUri ''/C:'')) = ''c:''"
  "fsPath \<lparr>scheme = ''file'', authority = ''server'', path = ''/share/a.txt'', query = [],
            fragment = []\<rparr>
     = ''//server/share/a.txt''"
  by code_simp+

lemma added_emit: "added w (emit e w) = [e]"
  by (simp add: added_def emit_def)


text \<open>
  C4.  The left reference is none exactly for the statuses ADDED, UNTRACKED and
  IGNORED; for every other status it is the historical reference of the resource's
  original URI: its path, seen through the \<^verbatim>\<open>hg\<close> scheme at revision \<^verbatim>\<open>.\<close>.
\<close>

theorem getLeftResource_by_status:
  "(getLeftResource r = None) = (status r \<in> {ADDED, UNTRACKED, IGNORED})
   \<and> getLeftResource r =
       (if status r \<in> {ADDED, UNTRACKED, IGNORED} then None else Some (historical (original r)))
   \<and> path (historical (original r)) = path (original r)
   \<and> query (historical (original r)) = ''.''"
  by (cases "status r") (simp_all add: getLeftResource_def historical_def)

text \<open>
  C5, as the claim states it, fails for a DELETED resource whose current URI differs
  from its original URI: the left reference is the historical view of the original
  URI, the right reference the historical view of the current URI, and the two
  differ.
\<close>

theorem deleted_sides_differ_counterexample:
  "getLeftResource (movedResource DELETED ''/repo/old.txt'' ''/repo/new.txt'')
     = Some (historical (fileUri ''/repo/old.txt''))
   \<and> getRightResource (movedResource DELETED ''/repo/old.txt'' ''/repo/new.txt'')
     = Some (historical (fileUri ''/repo/new.txt''))
   \<and> getLeftResource (movedResource DELETED ''/repo/old.txt'' ''/repo/new.txt'')
     \<noteq> getRightResource (movedResource DELETED ''/repo/old.txt'' ''/repo/new.txt'')"
  by (simp add: getLeftResource_def getRightResource_def movedResource_def historical_def
      fileUri_def)

text \<open>
  C5, amended.  For a DELETED resource the left reference is the historical reference
  of its original URI, the right reference the historical reference of its current
  URI (the two are equal when the URIs are), and the title is empty.  For a MODIFIED
  resource the left reference is the historical reference of the original URI, the
  right reference is the current URI, and the title is the base name followed by
  \<^verbatim>\<open> (Working Folder)\<close>.
\<close>

theorem diff_pair_deleted_modified:
  assumes "status d = DELETED" and "status m = MODIFIED"
  shows "getLeftResource d = Some (historical (original d))
         \<and> getRightResource d = Some (historical (resourceUri d))
         \<and> getTitle d = []
         \<and> (original d = resourceUri d \<longrightarrow> getLeftResource d = getRightResource d)
         \<and> getLeftResource m = Some (historical (original m))
         \<and> getRightResource m = Some (resourceUri m)
         \<and> getTitle m = basename (fsPath (resourceUri m)) @ '' (Working Folder)''"
  using assms
  by (simp add: getLeftResource_def getRightResource_def getTitle_def historical_def)

theorem diff_pair_deleted_modified_witness:
  "status (resourceAt DELETED ''/repo/c.txt'') = DELETED
   \<and> status (resourceAt MODIFIED ''/repo/a.txt'') = MODIFIED
   \<and> getLeftResource (resourceAt DELETED ''/repo/c.txt'')
       = Some (historical (fileUri ''/repo/c.txt''))
   \<and> getRightResource (resourceAt DELETED ''/repo/c.txt'')
       = Some (historical (fileUri ''/repo/c.txt''))
   \<and> getTitle (resourceAt DELETED ''/repo/c.txt'') = []
   \<and> getLeftResource (resourceAt MODIFIED ''/repo/a.txt'')
       = Some (historical (fileUri ''/repo/a.txt''))
   \<and> getRightResource (resourceAt MODIFIED ''/repo/a.txt'') = Some (fileUri ''/repo/a.txt'')
   \<and> getTitle (resourceAt MODIFIED ''/repo/a.txt'') = ''a.txt (Working Folder)''"
  using diff_pair_deleted_modified
    [of "resourceAt DELETED ''/repo/c.txt''" "resourceAt MODIFIED ''/repo/a.txt''"]
  by (simp add: resourceAt_def basename_def fsPath_def fileUri_def)

text \<open>
  C6.  Opening a resource whose right reference is none only writes the diagnostic
  \<^verbatim>\<open>oh no\<close> to the console and asks the host for no view.  Where the left reference
  is none and the right one exists, the host is asked once to open the right reference
  (\<^verbatim>\<open>vscode.open\<close>).  Where both exist, the host is asked once for the comparison of
  left and right under the title of the title rule (\<^verbatim>\<open>vscode.diff\<close>).
\<close>

theorem openResource_cases:
  assumes "getRightResource a = None"
    and "getLeftResource b = None" and "getRightResource b = Some rb"
    and "getLeftResource c = Some lc" and "getRightResource c = Some rc"
  shows "openResource' a executed w = (Inr (), emit (ConsoleError (LogText ''oh no'')) w)
         \<and> added w (snd (openResource' a executed w)) = [ConsoleError (LogText ''oh no'')]
         \<and> added w (snd (openResource' b executed w)) = [ExecuteCommand (VscodeOpen rb)]
         \<and> added w (snd (openResource' c executed w))
             = [ExecuteCommand (VscodeDiff lc rc (getTitle c))]"
  using assms
  by (simp add: openResource'_def executeCommand_def added_emit split: option.splits)

theorem openResource_cases_witness:
  "getRightResource (resourceAt CLEAN ''/repo/d.txt'') = None
   \<and> getLeftResource (resourceAt ADDED ''/repo/b.txt'') = None
   \<and> getRightResource (resourceAt ADDED ''/repo/b.txt'') = Some (fileUri ''/repo/b.txt'')
   \<and> getLeftResource (resourceAt MODIFIED ''/repo/a.txt'')
       = Some (historical (fileUri ''/repo/a.txt''))
   \<and> getRightResource (resourceAt MODIFIED ''/repo/a.txt'') = Some (fileUri ''/repo/a.txt'')
   \<and> events (snd (openResource' (resourceAt CLEAN ''/repo/d.txt'') None (boundWorld [] [] [])))
       = [ConsoleError (LogText ''oh no'')]
   \<and> events (snd (openResource' (resourceAt ADDED ''/repo/b.txt'') None (boundWorld [] [] [])))
       = [ExecuteCommand (VscodeOpen (fileUri ''/repo/b.txt''))]
   \<and> events (snd (openResource' (resourceAt MODIFIED ''/repo/a.txt'') None (boundWorld [] [] [])))
       = [ExecuteCommand
            (VscodeDiff (historical (fileUri ''/repo/a.txt'')) (fileUri ''/repo/a.txt'')
               ''a.txt (Working Folder)'')]"
  using openResource_cases
    [of "resourceAt CLEAN ''/repo/d.txt''"
        "resourceAt ADDED ''/repo/b.txt''" "fileUri ''/repo/b.txt''"
        "resourceAt MODIFIED ''/repo/a.txt''"
        "historical (fileUri ''/repo/a.txt'')" "fileUri ''/repo/a.txt''"
        None "boundWorld [] [] []"]
  by (simp add: getLeftResource_def getRightResource_def getTitle_def resourceAt_def
      historical_def basename_def fsPath_def fileUri_def added_def emit_def boundWorld_def)

section \<open>Properties of the dispatcher\<close>

lemma upperCase_e: "upperCase CHR ''e'' = CHR ''E''"
  by code_simp

lemma upperCase_gt: "upperCase CHR ''>'' = CHR ''>''"
  by code_simp

lemma upperCase_blank: "isWhiteSpace c \<Longrightarrow> upperCase c = c"
  unfolding isWhiteSpace_def by (auto simp: upperCase_def)

lemma blank_not_pattern_start: "isWhiteSpace c \<Longrightarrow> c \<noteq> CHR ''E'' \<and> c \<noteq> CHR ''>''"
  unfolding isWhiteSpace_def by auto

lemma replaceErrorPrefix_blank:
  "list_all isWhiteSpace s \<Longrightarrow> replaceErrorPrefix lineStart s = s"
proof (induction s arbitrary: lineStart)
  case Nil
  then show ?case by simp
next
  case (Cons c cs)
  then have "upperCase CHR ''e'' \<noteq> upperCase c"
    using upperCase_blank [of c] blank_not_pattern_start [of c] by (auto simp: upperCase_e)
  with Cons show ?case by simp
qed

lemma replaceHusky_blank:
  "list_all isWhiteSpace s \<Longrightarrow> replaceHusky lineStart s = s"
proof (induction s arbitrary: lineStart)
  case Nil
  then show ?case by simp
next
  case (Cons c cs)
  then have "upperCase CHR ''>'' \<noteq> upperCase c"
    using upperCase_blank [of c] blank_not_pattern_start [of c] by (auto simp: upperCase_gt)
  with Cons show ?case by simp
qed

text \<open>On a text of white space the two removals change nothing.\<close>

lemma hint_blank:
  "list_all isWhiteSpace text \<Longrightarrow>
   hint text = (case filter (\<lambda>line. line \<noteq> []) (splitLines text) of
                  [] \<Rightarrow> None
                | line # lines \<Rightarrow> Some line)"
  by (simp add: hint_def replaceErrorPrefix_blank replaceHusky_blank)

lemma first_line_nonempty:
  "filter (\<lambda>line. line \<noteq> []) ls = l # rest \<Longrightarrow> l \<noteq> []"
  by (induction ls) (auto split: if_splits)

lemma hint_nonempty: "hint text \<noteq> Some []"
  by (auto simp: hint_def split: list.splits dest: first_line_nonempty)

lemma format_hint: "format ''Hg: {0}'' [h] = ''Hg: '' @ h"
  by (simp add: digitValue_def)

lemma format_no_args: "format s [] = s"
  by (induction s "[] :: string list" rule: format.induct) (auto split: option.splits)

lemma errorMessage_cases:
  "errorMessage err =
     (if hgErrorCode err = Some ''DirtyWorkTree''
      then Inr ''Please clean your repository working tree before checkout.''
      else (case diagnosticText err of
              Inl raised \<Rightarrow> Inl raised
            | Inr text \<Rightarrow>
                Inr (case hint text of None \<Rightarrow> ''Hg error'' | Some line \<Rightarrow> ''Hg: '' @ line)))"
  unfolding errorMessage_def localize_def format_hint format_no_args
  using hint_nonempty
  by (auto split: sum.splits option.splits list.splits)

text \<open>The classification never yields an empty message.\<close>

lemma errorMessage_nonempty: "errorMessage err \<noteq> Inr []"
  by (simp add: errorMessage_cases split: sum.splits option.splits)

text \<open>
  The classification of \<^verbatim>\<open>new Error('')\<close>, of an error whose text is a line feed, of
  an ordinary error and of an error whose \<^verbatim>\<open>stderr\<close> is a \<^verbatim>\<open>Buffer\<close>.
\<close>

lemma errorMessage_examples:
  "errorMessage emptyError = Inr ''Hg: Error''"
  "errorMessage newlineError = Inr ''Hg error''"
  "errorMessage plainError = Inr ''Hg: abort: no repository found''"
  "errorMessage bufferError = Inl (typeError ''replace is not a function'')"
  by (simp_all add: errorMessage_cases diagnosticText_def hint_def emptyError_def newlineError_def
      plainError_def bufferError_def upperCase_def isLineTerminator_def)

lemma catchHandler_message:
  assumes "errorMessage err = Inr msg"
  shows "catchHandler (Obj err) choice shown w =
     (if choice = Some ''Open Hg Log''
      then (case shown of None \<Rightarrow> PromiseFulfilled | Some raised \<Rightarrow> PromiseRejected raised,
            emit OutputChannelShow (emit (ShowErrorMessage msg ''Open Hg Log'') w))
      else (PromiseFulfilled, emit (ShowErrorMessage msg ''Open Hg Log'') w))"
  using assms errorMessage_nonempty [of err]
  by (auto simp: catchHandler_def localize_def format_no_args Let_def split: option.splits)

lemma createCommand_rejects:
  assumes "skipModelCheck \<or> model w \<noteq> None"
    and "method (emit (SendTelemetryEvent ''hg.command'' commandId) w) = (Rejects thrown, w')"
  shows "createCommand commandId skipModelCheck method choice shown w
           = catchHandler thrown choice shown w'"
  using assms by (auto simp: createCommand_def Let_def)




text \<open>
  C3.  A command registered with the model check (\<^verbatim>\<open>skipModelCheck\<close> false, that
  is, it requires the model), invoked while no model is bound, shows the informational
  notice and returns \<^verbatim>\<open>undefined\<close>.  The outcome is the same whatever the handler is:
  the handler is not called, and no telemetry event is among the events added.
\<close>

theorem guard_blocks_dispatch:
  assumes "\<not> skipModelCheck" and "model w = None"
  shows "createCommand commandId skipModelCheck method choice shown w
           = (ReturnedUndefined,
              emit (ShowInformationMessage
                      ''Hg is either disabled or not supported in this workspace'') w)
    \<and> added w (snd (createCommand commandId skipModelCheck method choice shown w))
        = [ShowInformationMessage ''Hg is either disabled or not supported in this workspace'']
    \<and> filter isTelemetry
          (added w (snd (createCommand commandId skipModelCheck method choice shown w)))
        = []"
  using assms by (simp add: createCommand_def localize_def format_no_args added_emit)

theorem guard_blocks_dispatch_witness:
  "model unboundWorld = None
   \<and> createCommand ''hg.showOutput'' False showingOutput None None unboundWorld
       = (ReturnedUndefined,
          \<lparr>model = None, inputBox = [],
           events = [ShowInformationMessage
                       ''Hg is either disabled or not supported in this workspace'']\<rparr>)
   \<and> showingOutput unboundWorld
       = (Fulfils, \<lparr>model = None, inputBox = [], events = [OutputChannelShow]\<rparr>)"
  using guard_blocks_dispatch [of False unboundWorld "''hg.showOutput''" showingOutput None None]
  by (simp add: unboundWorld_def emit_def showingOutput_def)

text \<open>
  C9.  The claim is not met by the wrapper in three ways.  The handler of
  \<^verbatim>\<open>hg.showOutput\<close> is not asynchronous: when the output channel throws, the
  exception leaves the wrapper before any promise exists.  A handler that rejects with
  \<^verbatim>\<open>null\<close> makes the catch handler throw at \<^verbatim>\<open>err.hgErrorCode\<close>, and one that
  rejects with an error whose \<^verbatim>\<open>stderr\<close> is a \<^verbatim>\<open>Buffer\<close> makes it throw at
  \<^verbatim>\<open>.replace\<close>: the promise of the wrapper rejects.  In all three runs nothing but
  the telemetry event leaves the wrapper: the failure is neither shown nor logged.
\<close>

theorem dispatch_failure_escapes:
  "createCommand ''hg.showOutput'' False (throwing channelError) None None (boundWorld [] [] [])
     = (ThrewSynchronously (Obj channelError),
        emit (SendTelemetryEvent ''hg.command'' ''hg.showOutput'') (boundWorld [] [] []))
   \<and> createCommand ''hg.refresh'' False rejectingNull None None (boundWorld [] [] [])
     = (PromiseRejected (typeError ''Cannot read property hgErrorCode''),
        emit (SendTelemetryEvent ''hg.command'' ''hg.refresh'') (boundWorld [] [] []))
   \<and> createCommand ''hg.pull'' False (rejecting bufferError) None None (boundWorld [] [] [])
     = (PromiseRejected (typeError ''replace is not a function''),
        emit (SendTelemetryEvent ''hg.command'' ''hg.pull'') (boundWorld [] [] []))"
  by (simp add: createCommand_def throwing_def rejectingNull_def rejecting_def catchHandler_def
      errorMessage_def diagnosticText_def bufferError_def boundWorld_def Let_def)

text \<open>
  A rejection with an error the classification can read is absorbed: the message is
  shown, and the promise of the wrapper is fulfilled unless showing the output channel
  throws.
\<close>

lemma classified_rejection_absorbed:
  assumes "skipModelCheck \<or> model w \<noteq> None"
    and "method (emit (SendTelemetryEvent ''hg.command'' commandId) w) = (Rejects (Obj err), w')"
    and "errorMessage err = Inr msg"
  shows "createCommand commandId skipModelCheck method choice None w
           = (PromiseFulfilled,
              if choice = Some ''Open Hg Log''
              then emit OutputChannelShow (emit (ShowErrorMessage msg ''Open Hg Log'') w')
              else emit (ShowErrorMessage msg ''Open Hg Log'') w')"
  using createCommand_rejects [of skipModelCheck w "method" commandId "Obj err" w' choice None]
    assms catchHandler_message [OF assms(3), of choice None w']
  by simp

section \<open>Properties of the commit commands\<close>

text \<open>
  C2.  The default scope is computed from the working-directory group, not from the
  staging group: with no staged change and one modified file in the working directory,
  \<^verbatim>\<open>smartCommit\<close> without options commits with \<^verbatim>\<open>all\<close> false, where the claim
  asks for "all changes".
\<close>

theorem smartCommit_default_scope_at_failing_input:
  "model (boundWorld [resourceAt MODIFIED ''/repo/a.txt''] [] [])
     = Some \<lparr>workingDirectoryGroup = [resourceAt MODIFIED ''/repo/a.txt''], stagingGroup = []\<rparr>
   \<and> smartCommit (answering ''fix'') None None
        (boundWorld [resourceAt MODIFIED ''/repo/a.txt''] [] [])
     = (Inr True,
        emit (ModelCommit ''fix'' \<lparr>all = False\<rparr>)
          (boundWorld [resourceAt MODIFIED ''/repo/a.txt''] [] []))"
  by (simp add: smartCommit_def answering_def boundWorld_def)

lemma smartCommit_no_working_changes:
  "model w = Some m \<Longrightarrow> workingDirectoryGroup m = [] \<Longrightarrow>
   smartCommit getCommitMessage opts committed w
     = (Inr False, emit (ShowInformationMessage ''There are no changes to commit.'') w)"
  by (simp add: smartCommit_def localize_def format_no_args Let_def)

text \<open>
  C7.  With no staged change and no working-directory change, \<^verbatim>\<open>smartCommit\<close>
  shows the informational notice, returns false and does not call the engine's commit
  operation, whatever the options, the message source and the engine would do.
\<close>

theorem smartCommit_nothing_to_commit:
  assumes "model w = Some m" and "stagingGroup m = []" and "workingDirectoryGroup m = []"
  shows "smartCommit getCommitMessage opts committed w
           = (Inr False, emit (ShowInformationMessage ''There are no changes to commit.'') w)
    \<and> added w (snd (smartCommit getCommitMessage opts committed w))
        = [ShowInformationMessage ''There are no changes to commit.'']
    \<and> filter isCommit (added w (snd (smartCommit getCommitMessage opts committed w))) = []"
  using assms by (simp add: smartCommit_no_working_changes added_emit)

theorem smartCommit_nothing_to_commit_witness:
  "model (boundWorld [] [] ''fix'') = Some \<lparr>workingDirectoryGroup = [], stagingGroup = []\<rparr>
   \<and> smartCommit (answering ''fix'') (Some \<lparr>all = True\<rparr>) None (boundWorld [] [] ''fix'')
       = (Inr False,
          \<lparr>model = Some \<lparr>workingDirectoryGroup = [], stagingGroup = []\<rparr>, inputBox = ''fix'',
           events = [ShowInformationMessage ''There are no changes to commit.'']\<rparr>)"
  using smartCommit_nothing_to_commit
    [of "boundWorld [] [] ''fix''" "\<lparr>workingDirectoryGroup = [], stagingGroup = []\<rparr>"
        "answering ''fix''" "Some \<lparr>all = True\<rparr>" None]
  by (simp add: boundWorld_def emit_def)

lemma smartCommit_from_buffer:
  assumes "model w = Some m" and "workingDirectoryGroup m \<noteq> []" and "msg \<noteq> []"
  shows "smartCommit
           (\<lambda>w. if msg \<noteq> [] then (Inr (Some msg), w) else showInputBox answer w) opts None w
      = (Inr True,
         emit (ModelCommit msg (case opts of None \<Rightarrow> \<lparr>all = False\<rparr> | Some given \<Rightarrow> given)) w)"
  using assms by (cases msg) (simp_all add: smartCommit_def Let_def split: option.splits)

lemma smartCommit_keeps_inputBox:
  "inputBox (snd (smartCommit (showInputBox answer) opts committed w)) = inputBox w"
  by (auto simp: smartCommit_def showInputBox_def Let_def emit_def
      split: option.splits list.splits)

text \<open>
  C8.  Where the input box holds a message and the commit succeeds (the model is
  bound, the working directory has changes, the engine's commit resolves),
  \<^verbatim>\<open>commitWithAnyInput\<close> commits with that message and then sets the input box to
  the engine's commit template.  Where the input box is empty, so that the message is
  asked for interactively, the input box is left as it was, whatever else happens.
\<close>

theorem commitWithAnyInput_buffer:
  assumes "model w = Some m" and "workingDirectoryGroup m \<noteq> []" and "inputBox w \<noteq> []"
    and "template = Inr t"
    and "inputBox v = []"
  shows "commitWithAnyInput opts answer None template w
           = (Inr (),
              (emit ModelGetCommitTemplate
                 (emit (ModelCommit (inputBox w)
                          (case opts of None \<Rightarrow> \<lparr>all = False\<rparr> | Some given \<Rightarrow> given)) w))
              \<lparr>inputBox := t\<rparr>)
    \<and> inputBox (snd (commitWithAnyInput opts answer None template w)) = t
    \<and> inputBox (snd (commitWithAnyInput opts' answer' committed' template' v)) = inputBox v"
proof -
  have buffer: "commitWithAnyInput opts answer None template w
           = (Inr (),
              (emit ModelGetCommitTemplate
                 (emit (ModelCommit (inputBox w)
                          (case opts of None \<Rightarrow> \<lparr>all = False\<rparr> | Some given \<Rightarrow> given)) w))
              \<lparr>inputBox := t\<rparr>)"
    using assms(1-4) smartCommit_from_buffer [of w m "inputBox w" answer opts]
    by (simp add: commitWithAnyInput_def Let_def)
  have prompt: "inputBox (snd (commitWithAnyInput opts' answer' committed' template' v)) = inputBox v"
    using assms(5) smartCommit_keeps_inputBox [of answer' opts' committed' v]
    by (auto simp: commitWithAnyInput_def Let_def split: prod.splits sum.splits)
  show ?thesis using buffer prompt by simp
qed

theorem commitWithAnyInput_buffer_witness:
  "model (boundWorld [resourceAt MODIFIED ''/repo/a.txt''] [] ''fix'')
     = Some \<lparr>workingDirectoryGroup = [resourceAt MODIFIED ''/repo/a.txt''], stagingGroup = []\<rparr>
   \<and> inputBox (boundWorld [resourceAt MODIFIED ''/repo/a.txt''] [] ''fix'') = ''fix''
   \<and> events (snd (commitWithAnyInput None None None (Inr ''template'')
                    (boundWorld [resourceAt MODIFIED ''/repo/a.txt''] [] ''fix'')))
       = [ModelCommit ''fix'' \<lparr>all = False\<rparr>, ModelGetCommitTemplate]
   \<and> inputBox (snd (commitWithAnyInput None None None (Inr ''template'')
                      (boundWorld [resourceAt MODIFIED ''/repo/a.txt''] [] ''fix'')))
       = ''template''
   \<and> inputBox (boundWorld [resourceAt MODIFIED ''/repo/a.txt''] [] []) = []
   \<and> events (snd (commitWithAnyInput None (Some ''typed'') None (Inr ''template'')
                    (boundWorld [resourceAt MODIFIED ''/repo/a.txt''] [] [])))
       = [ShowInputBox, ModelCommit ''typed'' \<lparr>all = False\<rparr>]
   \<and> inputBox (snd (commitWithAnyInput None (Some ''typed'') None (Inr ''template'')
                      (boundWorld [resourceAt MODIFIED ''/repo/a.txt''] [] [])))
       = []"
proof -
  have typed: "events (snd (commitWithAnyInput None (Some ''typed'') None (Inr ''template'')
                    (boundWorld [resourceAt MODIFIED ''/repo/a.txt''] [] [])))
       = [ShowInputBox, ModelCommit ''typed'' \<lparr>all = False\<rparr>]"
    by (simp add: commitWithAnyInput_def smartCommit_def showInputBox_def boundWorld_def emit_def)
  show ?thesis
    using typed commitWithAnyInput_buffer
      [of "boundWorld [resourceAt MODIFIED ''/repo/a.txt''] [] ''fix''"
          "\<lparr>workingDirectoryGroup = [resourceAt MODIFIED ''/repo/a.txt''], stagingGroup = []\<rparr>"
          "Inr ''template''" "''template''"
          "boundWorld [resourceAt MODIFIED ''/repo/a.txt''] [] []"
          None None None "Some ''typed''" None "Inr ''template''"]
    by (simp add: boundWorld_def emit_def)
qed

section \<open>Properties of the branch command\<close>

lemma units_literals:
  "units ''.'' = [46]" "units ''/.'' = [47, 46]" "units ''..'' = [46, 46]" "units ''~'' = [126]"
  "units ''^'' = [94]" "units '':'' = [58]" "units ''/'' = [47]"
  "units ''.lock'' = [46, 108, 111, 99, 107]" "units ''.lock/'' = [46, 108, 111, 99, 107, 47]"
  "units ''*'' = [42]" "units ''-'' = [45]"
  by (simp_all add: units_def)

lemma firstMatch_None:
  assumes "firstMatch branchPattern start rest = None"
  shows "\<not> (start \<and> prefix [46] rest)" "\<not> prefix [47, 46] rest" "\<not> prefix [46, 46] rest"
    "\<not> prefix [126] rest" "\<not> prefix [94] rest" "\<not> prefix [58] rest"
    "rest \<noteq> [47]" "rest \<noteq> [46, 108, 111, 99, 107]"
    "\<not> prefix [46, 108, 111, 99, 107, 47] rest"
    "\<not> prefix [92] rest" "\<not> prefix [42] rest"
    "\<not> (\<exists>c cs. rest = c # cs \<and> isWhiteSpaceUnit c)" "rest \<noteq> [46]"
  using assms
  by (simp_all add: branchPattern_def units_literals split: if_splits option.splits list.splits)

text \<open>No alternative matches the empty string inside a non-empty input.\<close>

lemma firstMatch_positive: "firstMatch branchPattern start (c # cs) \<noteq> Some 0"
  by (auto simp: branchPattern_def units_literals split: if_splits option.splits list.splits)

lemma replaceAll_Nil:
  "replaceAll branchPattern [45] start [] = (if start then [45] else [])"
  by (simp add: branchPattern_def units_literals)

lemma replaceAll_Cons:
  "replaceAll branchPattern [45] start (c # cs) =
     (case firstMatch branchPattern start (c # cs) of
        None \<Rightarrow> c # replaceAll branchPattern [45] False cs
      | Some n \<Rightarrow> 45 # replaceAll branchPattern [45] False (drop (n - 1) cs))"
  using firstMatch_positive [of start c cs]
  by (simp split: option.splits nat.splits)

declare replaceAll.simps [simp del]

text \<open>A code unit other than the hyphen at the head of the result is copied from the input.\<close>

lemma replaceAll_head:
  assumes "replaceAll branchPattern [45] start s = c # out" and "c \<noteq> 45"
  shows "\<exists>cs. s = c # cs \<and> firstMatch branchPattern start s = None
           \<and> out = replaceAll branchPattern [45] False cs"
proof (cases s)
  case Nil
  with assms show ?thesis by (simp add: replaceAll_Nil split: if_splits)
next
  case (Cons d ds)
  with assms show ?thesis
    by (simp add: replaceAll_Cons split: option.splits)
qed

lemma replaceAll_empty: "replaceAll branchPattern [45] start s = [] \<Longrightarrow> s = []"
  by (cases s) (simp_all add: replaceAll_Cons split: option.splits)

text \<open>Every suffix of a result is itself the result of a replacement.\<close>

lemma replaceAll_suffix:
  "suffix t (replaceAll branchPattern [45] start s)
     \<Longrightarrow> \<exists>start' s'. t = replaceAll branchPattern [45] start' s'"
proof (induction s arbitrary: start rule: length_induct)
  case (1 s)
  show ?case
  proof (cases s)
    case Nil
    with 1(2) have "t = [] \<or> t = [45]"
      by (cases t) (auto simp: replaceAll_Nil suffix_Cons split: if_splits)
    moreover have "[] = replaceAll branchPattern [45] False []"
      and "[45] = replaceAll branchPattern [45] True []"
      by (simp_all add: replaceAll_Nil)
    ultimately show ?thesis by blast
  next
    case (Cons c cs)
    have "\<exists>x rest'. replaceAll branchPattern [45] start s
                 = x # replaceAll branchPattern [45] False rest' \<and> length rest' < length s"
    proof (cases "firstMatch branchPattern start (c # cs)")
      case None
      with Cons have "replaceAll branchPattern [45] start s
                        = c # replaceAll branchPattern [45] False cs"
        and "length cs < length s"
        by (simp_all add: replaceAll_Cons)
      then show ?thesis by blast
    next
      case (Some n)
      with Cons have "replaceAll branchPattern [45] start s
                        = 45 # replaceAll branchPattern [45] False (drop (n - 1) cs)"
        and "length (drop (n - 1) cs) < length s"
        by (simp_all add: replaceAll_Cons)
      then show ?thesis by blast
    qed
    then obtain x rest' where
      out: "replaceAll branchPattern [45] start s = x # replaceAll branchPattern [45] False rest'"
      and len: "length rest' < length s"
      by blast
    from 1(2) have "t = replaceAll branchPattern [45] start s
                    \<or> suffix t (replaceAll branchPattern [45] False rest')"
      unfolding out by (auto simp: suffix_Cons)
    then show ?thesis
      using 1(1) len by blast
  qed
qed

text \<open>A literal without a hyphen that the result starts with, the input starts with.\<close>

lemma replaceAll_prefix:
  assumes "prefix p (replaceAll branchPattern [45] start s)" and "45 \<notin> set p" and "p \<noteq> []"
  shows "prefix p s \<and> firstMatch branchPattern start s = None"
  using assms
proof (induction p arbitrary: start s)
  case Nil
  then show ?case by simp
next
  case (Cons c p)
  then obtain out where out: "replaceAll branchPattern [45] start s = c # out"
    and p: "prefix p out"
    by (cases "replaceAll branchPattern [45] start s") auto
  from Cons.prems(2) have "c \<noteq> 45" by auto
  from replaceAll_head [OF out this] obtain cs where
    s: "s = c # cs" and none: "firstMatch branchPattern start s = None"
    and rest: "out = replaceAll branchPattern [45] False cs" by blast
  show ?case
  proof (cases "p = []")
    case True
    with s none show ?thesis by simp
  next
    case False
    with Cons.IH [of False cs] p rest Cons.prems(2) have "prefix p cs" by simp
    with s none show ?thesis by simp
  qed
qed

lemma replaceAll_whole:
  assumes "replaceAll branchPattern [45] start s = p" and "45 \<notin> set p" and "p \<noteq> []"
  shows "s = p \<and> firstMatch branchPattern start s = None"
  using assms
proof (induction p arbitrary: start s)
  case Nil
  then show ?case by simp
next
  case (Cons c p)
  from Cons.prems(2) have "c \<noteq> 45" by auto
  from replaceAll_head [OF Cons.prems(1) this] obtain cs where
    s: "s = c # cs" and none: "firstMatch branchPattern start s = None"
    and rest: "p = replaceAll branchPattern [45] False cs" by blast
  show ?case
  proof (cases "p = []")
    case True
    with rest have "cs = []" using replaceAll_empty [of False cs] by simp
    with s none True show ?thesis by simp
  next
    case False
    with Cons.IH [of False cs] rest Cons.prems(2) have "cs = p" by simp
    with s none show ?thesis by simp
  qed
qed

lemma replaceAll_sublist:
  assumes "sublist p (replaceAll branchPattern [45] start s)" and "45 \<notin> set p" and "p \<noteq> []"
  shows "\<exists>start' s'. prefix p s' \<and> firstMatch branchPattern start' s' = None"
proof -
  from assms(1) obtain t where "suffix t (replaceAll branchPattern [45] start s)"
    and "prefix p t"
    by (auto simp: sublist_altdef')
  with replaceAll_suffix obtain start' s'
    where "prefix p (replaceAll branchPattern [45] start' s')"
    by blast
  from replaceAll_prefix [OF this assms(2,3)] show ?thesis by blast
qed

lemma replaceAll_ends:
  assumes "suffix p (replaceAll branchPattern [45] start s)" and "45 \<notin> set p" and "p \<noteq> []"
  shows "\<exists>start'. firstMatch branchPattern start' p = None"
proof -
  from replaceAll_suffix [OF assms(1)] obtain start' s'
    where "replaceAll branchPattern [45] start' s' = p" by metis
  from replaceAll_whole [OF this assms(2,3)] show ?thesis by blast
qed

lemma replaceAll_member:
  assumes "c \<in> set (replaceAll branchPattern [45] start s)" and "c \<noteq> 45"
  shows "\<exists>start' cs. firstMatch branchPattern start' (c # cs) = None"
proof -
  from assms(1) have "sublist [c] (replaceAll branchPattern [45] start s)"
    by (metis in_set_conv_decomp sublist_appendI append_Cons append_Nil)
  from replaceAll_sublist [OF this] assms(2) obtain start' s'
    where "prefix [c] s'" and "firstMatch branchPattern start' s' = None" by auto
  then show ?thesis by (cases s') auto
qed

lemma unmatched_head:
  assumes "firstMatch branchPattern start (c # cs) = None"
  shows "c \<notin> {126, 94, 58, 92, 42} \<and> \<not> isWhiteSpaceUnit c"
  using firstMatch_None(4,5,6,10,11,12) [OF assms] by auto

lemma replaceAll_chars:
  assumes "c \<in> set (replaceAll branchPattern [45] start s)"
  shows "c \<notin> {126, 94, 58, 92, 42} \<and> \<not> isWhiteSpaceUnit c"
proof (cases "c = 45")
  case True
  then show ?thesis by (simp add: isWhiteSpaceUnit_def)
next
  case False
  from replaceAll_member [OF assms False] obtain start' cs
    where "firstMatch branchPattern start' (c # cs) = None" by blast
  then show ?thesis by (rule unmatched_head)
qed

text \<open>No forbidden pattern occurs in a sanitized name.\<close>

lemma sanitized_forbiddenFree: "forbiddenFree (replaceAll branchPattern [45] True s)"
proof -
  let ?out = "replaceAll branchPattern [45] True s"
  have 1: "\<not> prefix [46] ?out"
    using replaceAll_prefix [of "[46]" True s] firstMatch_None(1) [of True s] by auto
  have 2: "\<not> sublist [47, 46] ?out"
    using replaceAll_sublist [of "[47, 46]" True s] firstMatch_None(2) by auto
  have 3: "\<not> sublist [46, 46] ?out"
    using replaceAll_sublist [of "[46, 46]" True s] firstMatch_None(3) by auto
  have 7: "\<not> suffix [47] ?out"
    using replaceAll_ends [of "[47]" True s] firstMatch_None(7) by auto
  have 8: "\<not> suffix [46, 108, 111, 99, 107] ?out"
    using replaceAll_ends [of "[46, 108, 111, 99, 107]" True s] firstMatch_None(8) by auto
  have 9: "\<not> sublist [46, 108, 111, 99, 107, 47] ?out"
    using replaceAll_sublist [of "[46, 108, 111, 99, 107, 47]" True s] firstMatch_None(9)
    by auto
  have chars: "126 \<notin> set ?out" "94 \<notin> set ?out" "58 \<notin> set ?out" "92 \<notin> set ?out"
    "42 \<notin> set ?out"
    using replaceAll_chars [of _ True s] by blast+
  have 12: "\<not> list_ex isWhiteSpaceUnit ?out"
    using replaceAll_chars [of _ True s] by (auto simp: list_ex_iff)
  have 13: "\<not> suffix [46] ?out"
    using replaceAll_ends [of "[46]" True s] firstMatch_None(13) by auto
  show ?thesis
    unfolding forbiddenFree_def units_literals using 1 2 3 7 8 9 chars 12 13 by simp
qed

text \<open>
  What the pattern matches at a position is an occurrence of a forbidden pattern, and
  where it matches nothing no forbidden pattern occurs.
\<close>

lemma firstMatch_occurrences:
  "firstMatch branchPattern start (c # cs) = None \<Longrightarrow> occurrences start (c # cs) = []"
  "firstMatch branchPattern start (c # cs) = Some n \<Longrightarrow> n \<in> set (occurrences start (c # cs))"
  by (auto simp: branchPattern_def occurrences_def units_literals
      split: if_splits option.splits list.splits)

lemma replaceAll_replaced:
  "s \<noteq> [] \<or> \<not> start \<Longrightarrow> replaced start s (replaceAll branchPattern [45] start s)"
proof (induction s arbitrary: start rule: length_induct)
  case (1 s)
  show ?case
  proof (cases s)
    case Nil
    with 1(2) show ?thesis by (simp add: replaceAll_Nil)
  next
    case (Cons c cs)
    have inner: "\<And>t. length t < length s \<Longrightarrow> replaced False t (replaceAll branchPattern [45] False t)"
      using 1(1) by simp
    show ?thesis
    proof (cases "firstMatch branchPattern start (c # cs)")
      case None
      then show ?thesis
        using Cons inner [of cs] firstMatch_occurrences(1) [OF None]
        by (simp add: replaceAll_Cons)
    next
      case (Some n)
      from firstMatch_positive [of start c cs] Some obtain k where n: "n = Suc k"
        by (cases n) auto
      have "replaced False (drop n (c # cs)) (replaceAll branchPattern [45] False (drop (n - 1) cs))"
        using inner [of "drop k cs"] Cons n by simp
      with firstMatch_occurrences(2) [OF Some] show ?thesis
        using Cons Some by (auto simp: replaceAll_Cons list_ex_iff)
    qed
  qed
qed

text \<open>
  The relation tells names apart: a name without forbidden pattern is related to itself
  only, a trailing dot has to become a hyphen.
\<close>

lemma replaced_examples:
  "\<not> replaced True (units ''feature/x'') (units ''-a-b-lock'')"
  "replaced True (units ''feature/x'') (units ''feature/x'')"
  "replaced True (units ''feature/x.'') (units ''feature/x-'')"
  "\<not> replaced True (units ''feature/x.'') (units ''feature/x.'')"
  by (simp_all add: units_def occurrences_def isWhiteSpaceUnit_def)

text \<open>White space above U+00FF: an ideographic space and a line separator.\<close>

lemma branch_wide_space_example:
  "added (boundWorld [] [] [])
     (snd (branch (Some [0x3000, 0x61, 0x2028]) None (boundWorld [] [] [])))
     = [ShowInputBox, ModelBranch [0x2D, 0x61, 0x2D]]"
  by (simp add: branch_def showInputBox_def boundWorld_def added_def emit_def
      replaceAll.simps branchPattern_def units_def isWhiteSpaceUnit_def)

text \<open>
  C10.  For a non-empty answer to the input box, \<^verbatim>\<open>branch\<close> calls the engine's
  branch operation once, with a name in which every occurrence of a forbidden pattern,
  met from left to right, is replaced by a hyphen and every other code unit is kept;
  no forbidden pattern occurs in the name passed on.  A cancelled or empty answer
  leads to no engine call.
\<close>

theorem branch_sanitizes:
  assumes "result \<noteq> []" and "model w = Some m"
  shows "(\<exists>name. added w (snd (branch (Some result) branched w)) = [ShowInputBox, ModelBranch name]
            \<and> replaced True result name \<and> forbiddenFree name)
    \<and> added w (snd (branch None branched w)) = [ShowInputBox]
    \<and> added w (snd (branch (Some []) branched w)) = [ShowInputBox]"
proof -
  obtain c cs where r: "result = c # cs" using assms(1) by (cases result) auto
  have "added w (snd (branch (Some result) branched w))
           = [ShowInputBox, ModelBranch (replaceAll branchPattern [45] True result)]"
    using assms(2) unfolding r
    by (simp add: branch_def showInputBox_def Let_def added_def emit_def units_literals
        split: option.splits)
  moreover have "added w (snd (branch None branched w)) = [ShowInputBox]"
    and "added w (snd (branch (Some []) branched w)) = [ShowInputBox]"
    by (simp_all add: branch_def showInputBox_def added_def emit_def)
  ultimately show ?thesis
    using replaceAll_replaced [of result True] assms(1) sanitized_forbiddenFree [of result]
    by blast
qed

theorem branch_sanitizes_witness:
  "units ''.a b/.lock'' \<noteq> []
   \<and> model (boundWorld [] [] []) = Some \<lparr>workingDirectoryGroup = [], stagingGroup = []\<rparr>
   \<and> added (boundWorld [] [] [])
        (snd (branch (Some (units ''.a b/.lock'')) None (boundWorld [] [] [])))
       = [ShowInputBox, ModelBranch (units ''-a-b-lock'')]
   \<and> replaced True (units ''.a b/.lock'') (units ''-a-b-lock'')
   \<and> forbiddenFree (units ''-a-b-lock'')
   \<and> added (boundWorld [] [] []) (snd (branch None None (boundWorld [] [] []))) = [ShowInputBox]"
proof -
  have run: "added (boundWorld [] [] [])
        (snd (branch (Some (units ''.a b/.lock'')) None (boundWorld [] [] [])))
       = [ShowInputBox, ModelBranch (units ''-a-b-lock'')]"
    by (simp add: branch_def showInputBox_def boundWorld_def added_def emit_def
        replaceAll.simps branchPattern_def units_def isWhiteSpaceUnit_def)
  show ?thesis
    using run branch_sanitizes [of "units ''.a b/.lock''" "boundWorld [] [] []"
      "\<lparr>workingDirectoryGroup = [], stagingGroup = []\<rparr>" None]
    by (auto simp: boundWorld_def units_def)
qed

end
